theory Spec2Isabelle
  imports Main "HOL-Library.Sublist" "HOL-Library.Char_ord"
begin

section \<open>The process and its environment\<close>

text \<open>
  The setup script \<^verbatim>\<open>src/lib/db/setup.ts\<close> talks to three collaborators: the operator
  (lines typed on standard input), the external \<^verbatim>\<open>stripe\<close> tool (child processes) and the
  file system. They are modelled as a scripted environment held in the state:
  \<^item> \<open>stdin\<close>: the lines the operator will type, in order;
  \<^item> \<open>shell\<close>: for every command line, the outcomes of its successive runs;
  \<^item> \<open>platform\<close>: the value of \<^verbatim>\<open>os.platform()\<close>;
  \<^item> \<open>writable\<close>: whether \<^verbatim>\<open>fs.writeFile\<close> succeeds;
  \<^item> \<open>files\<close>: the content of the working directory, keyed by file name;
  \<^item> \<open>trace\<close>: everything the process did so far, oldest first.
\<close>

datatype exec_result = ExecOk string | ExecFail

datatype event =
    Log string
  | Err string
  | Ask string
  | Exec string
  | WriteFile string string

datatype error = Error string | ExecError string | IOError string

record world =
  stdin :: "string list"
  shell :: "string \<Rightarrow> exec_result list"
  platform :: string
  writable :: bool
  files :: "string \<rightharpoonup> string"
  trace :: "event list"

text \<open>
  An asynchronous function either returns a value, rejects with an error, ends the process
  through \<^verbatim>\<open>process.exit\<close>, or stays suspended for ever at a prompt nobody answers or at
  a child process that never exits.
\<close>

datatype 'a outcome =
    Return 'a world
  | Throw error world
  | Exited nat world
  | Blocked world

type_synonym 'a step = "world \<Rightarrow> 'a outcome"

fun world_of :: "'a outcome \<Rightarrow> world" where
  "world_of (Return x w) = w"
| "world_of (Throw e w) = w"
| "world_of (Exited n w) = w"
| "world_of (Blocked w) = w"

definition await :: "'a step \<Rightarrow> ('a \<Rightarrow> 'b step) \<Rightarrow> 'b step" where
  "await m k w =
     (case m w of
        Return x w' \<Rightarrow> k x w'
      | Throw e w' \<Rightarrow> Throw e w'
      | Exited n w' \<Rightarrow> Exited n w'
      | Blocked w' \<Rightarrow> Blocked w')"

definition andThen :: "unit step \<Rightarrow> 'b step \<Rightarrow> 'b step" where
  "andThen m k = await m (\<lambda>_. k)"

definition try_catch :: "'a step \<Rightarrow> (error \<Rightarrow> 'a step) \<Rightarrow> 'a step" where
  "try_catch m h w = (case m w of Throw e w' \<Rightarrow> h e w' | r \<Rightarrow> r)"

definition return :: "'a \<Rightarrow> 'a step" where
  "return x w = Return x w"

definition skip :: "unit step" where
  "skip = return ()"

definition throw :: "error \<Rightarrow> 'a step" where
  "throw e w = Throw e w"

definition emit :: "event \<Rightarrow> world \<Rightarrow> world" where
  "emit e w = w\<lparr>trace := trace w @ [e]\<rparr>"

definition console_log :: "string \<Rightarrow> unit step" where
  "console_log s w = Return () (emit (Log s) w)"

definition console_error :: "string \<Rightarrow> unit step" where
  "console_error s w = Return () (emit (Err s) w)"

definition process_exit :: "nat \<Rightarrow> 'a step" where
  "process_exit n w = Exited n w"

definition os_platform :: "string step" where
  "os_platform w = Return (platform w) w"

text \<open>\<^verbatim>\<open>question\<close>: print the query, resolve with the next line of standard input.\<close>

definition question :: "string \<Rightarrow> string step" where
  "question query w =
     (case stdin w of
        [] \<Rightarrow> Blocked (emit (Ask query) w)
      | ans # rest \<Rightarrow> Return ans (emit (Ask query) (w\<lparr>stdin := rest\<rparr>)))"

text \<open>
  \<^verbatim>\<open>execAsync\<close>: run a command line; resolve with its captured standard output, or reject
  when the child process fails.
\<close>

definition execAsync :: "string \<Rightarrow> string step" where
  "execAsync cmd w =
     (case shell w cmd of
        [] \<Rightarrow> Blocked (emit (Exec cmd) w)
      | r # rest \<Rightarrow>
          (let w' = emit (Exec cmd) (w\<lparr>shell := (shell w)(cmd := rest)\<rparr>)
           in case r of ExecOk out \<Rightarrow> Return out w' | ExecFail \<Rightarrow> Throw (ExecError cmd) w'))"

text \<open>
  \<^verbatim>\<open>fs.writeFile(path.join(process.cwd(), name), data)\<close>: \<open>files\<close> is the working directory,
  so the entry is keyed by \<open>name\<close>. The call is recorded in the trace whether or not it
  succeeds.
\<close>

definition fs_writeFile :: "string \<Rightarrow> string \<Rightarrow> unit step" where
  "fs_writeFile name data w =
     (if writable w
      then Return () (emit (WriteFile name data) (w\<lparr>files := (files w)(name \<mapsto> data)\<rparr>))
      else Throw (IOError name) (emit (WriteFile name data) w))"

section \<open>Strings\<close>

text \<open>
  Strings are byte strings (UTF-8). \<^verbatim>\<open>toLowerCase\<close> is modelled on the ASCII letters: it
  sets bit 5 of \<open>A\<close>..\<open>Z\<close> and leaves every other byte alone. The script only compares the
  result with the ASCII tokens \<open>y\<close>, \<open>n\<close> and \<open>continue\<close>, and no character outside ASCII
  lower-cases to a letter of these tokens, so the comparisons come out as in JavaScript.
\<close>

definition toLowerChar :: "char \<Rightarrow> char" where
  "toLowerChar c =
     (if CHR ''A'' \<le> c \<and> c \<le> CHR ''Z''
      then Char (digit0 c) (digit1 c) (digit2 c) (digit3 c) (digit4 c) True (digit6 c) (digit7 c)
      else c)"

definition toLowerCase :: "string \<Rightarrow> string" where
  "toLowerCase s = map toLowerChar s"

definition newline :: string where
  "newline = [CHR 0x0A]"

text \<open>\<^verbatim>\<open>Array.prototype.join\<close>.\<close>

fun join :: "string \<Rightarrow> string list \<Rightarrow> string" where
  "join sep [] = []"
| "join sep [x] = x"
| "join sep (x # y # ys) = x @ sep @ join sep (y # ys)"

text \<open>The character class \<^verbatim>\<open>[a-zA-Z0-9]\<close>.\<close>

definition is_alnum :: "char \<Rightarrow> bool" where
  "is_alnum c \<longleftrightarrow>
     (CHR ''a'' \<le> c \<and> c \<le> CHR ''z'') \<or> (CHR ''A'' \<le> c \<and> c \<le> CHR ''Z'') \<or>
     (CHR ''0'' \<le> c \<and> c \<le> CHR ''9'')"

text \<open>
  \<^verbatim>\<open>stdout.match(/whsec_[a-zA-Z0-9]+/)\<close>: the regular expression is tried at every position
  from the left; at a position it matches the literal \<open>whsec_\<close> and then, greedily, one or
  more characters of the class. The result is \<^verbatim>\<open>match[0]\<close>, or \<open>None\<close> for \<^verbatim>\<open>null\<close>.
\<close>

fun match_whsec :: "string \<Rightarrow> string option" where
  "match_whsec [] = None"
| "match_whsec (c # cs) =
     (if prefix ''whsec_'' (c # cs) \<and> takeWhile is_alnum (drop 6 (c # cs)) \<noteq> []
      then Some (''whsec_'' @ takeWhile is_alnum (drop 6 (c # cs)))
      else match_whsec cs)"

section \<open>The setup script\<close>

definition checkStripeCLI :: "unit step" where
  "checkStripeCLI =
     andThen (console_log ''Step 1: Checking if Stripe CLI is installed and authenticated...'')
     (try_catch
       (await (execAsync ''stripe --version'') (\<lambda>_.
        andThen (console_log ''Stripe CLI is installed.'')
        (try_catch
          (await (execAsync ''stripe config --list'') (\<lambda>_.
           console_log ''Stripe CLI is authenticated.''))
          (\<lambda>error.
            andThen (console_log
              ''Stripe CLI is not authenticated or the authentication has expired.'')
            (andThen (console_log ''Please run: stripe login'')
            (await (question ''Have you completed the authentication? (y/n): '') (\<lambda>answer.
             andThen
               (if toLowerCase answer \<noteq> ''y''
                then andThen (console_log
                       ''Please authenticate with Stripe CLI and run this script again.'')
                     (process_exit 1)
                else skip)
             (try_catch
               (await (execAsync ''stripe config --list'') (\<lambda>_.
                console_log ''Stripe CLI authentication confirmed.''))
               (\<lambda>error.
                 andThen (console_error
                   ''Failed to verify Stripe CLI authentication. Please try again.'')
                 (process_exit 1))))))))))
       (\<lambda>error.
         andThen (console_error
           ''Stripe CLI is not installed. Please install it and try again.'')
         (andThen (console_log ''To install Stripe CLI, follow these steps:'')
         (andThen (console_log ''1. Visit: https://docs.stripe.com/stripe-cli'')
         (andThen (console_log
           ''2. Download and install the Stripe CLI for your operating system'')
         (andThen (console_log ''3. After installation, run: stripe login'')
         (andThen (console_log
           ''After installation and authentication, please run this setup script again.'')
         (process_exit 1))))))))"

definition getStripeSecretKey :: "string step" where
  "getStripeSecretKey =
     andThen (console_log (newline @ ''Step 2: Getting Stripe Secret Key''))
     (andThen (console_log
       ''You can find your Stripe Secret Key at: https://dashboard.stripe.com/test/apikeys'')
     (question ''Enter your Stripe Secret Key: ''))"

definition createStripeWebhookSecret :: "string step" where
  "createStripeWebhookSecret =
     andThen (console_log (newline @ ''Step 3: Creating Stripe webhook secret...''))
     (try_catch
       (await (execAsync ''stripe listen --print-secret'') (\<lambda>stdout.
        case match_whsec stdout of
          None \<Rightarrow> throw (Error ''Failed to extract Stripe webhook secret'')
        | Some m \<Rightarrow> andThen (console_log ''Stripe webhook secret created.'') (return m)))
       (\<lambda>error.
         andThen (console_error
           ''Failed to create Stripe webhook secret. Check your Stripe CLI installation and permissions.'')
         (await os_platform (\<lambda>p.
          andThen
            (if p = ''win32''
             then console_log
               ''Note: On Windows, you may need to run this script as an administrator.''
             else skip)
          (throw error)))))"

definition checkSupabaseProject :: "unit step" where
  \<open>checkSupabaseProject =
     andThen (console_log (newline @ ''Step 4: Checking Supabase Project Setup''))
     (await (question ''Do you already have a Supabase project? (y/n): '') (\<lambda>hasProject.
      if toLowerCase hasProject = ''n'' then
        andThen (console_log
          ''You can create a new Supabase project at: https://database.new'')
        (await (question ''Type "continue" when you have created your project: '') (\<lambda>answer.
         if toLowerCase answer \<noteq> ''continue'' then
           await (question ''Please type "continue" when you have created your project: '')
             (\<lambda>answer.
               if toLowerCase answer \<noteq> ''continue'' then
                 andThen (console_error
                   ''Setup cancelled. Please create a Supabase project and try again.'')
                 (process_exit 1)
               else skip)
         else skip))
      else if toLowerCase hasProject = ''y'' then
        console_log ''Great! Continuing with existing Supabase project...''
      else
        andThen (console_error ''Invalid input. Please enter "y" or "n".'')
        (process_exit 1)))\<close>

definition getSupabaseKeysApiUrl :: "string step" where
  "getSupabaseKeysApiUrl =
     andThen (console_log (newline @ ''Step 5: Getting Supabase Keys''))
     (andThen (console_log
       ''You can find your Supabase Keys at: supabase.com/dashboard/project/<project-id>/settings/api'')
     (question ''Enter your Supabase API Url: ''))"

definition getSupabaseKeysAnonKey :: "string step" where
  "getSupabaseKeysAnonKey = question ''Enter your Supabase Anon Key: ''"

definition getSupabaseKeysServiceRoleKey :: "string step" where
  "getSupabaseKeysServiceRoleKey = question ''Enter your Supabase Service Role Key: ''"

text \<open>
  \<open>envVars\<close> is the object literal of \<open>main\<close>: its six keys are distinct and none is an
  integer index, so \<^verbatim>\<open>Object.entries\<close> lists them in the order they were written, which
  is the order of the association list.
\<close>

definition writeEnvFile :: "(string \<times> string) list \<Rightarrow> unit step" where
  "writeEnvFile envVars =
     andThen (console_log ''Step 6: Writing environment variables to .env'')
     (let envContent = join newline (map (\<lambda>(key, value). key @ ''='' @ value) envVars)
      in andThen (fs_writeFile ''.env'' envContent)
         (console_log ''.env file created with the necessary variables.''))"

text \<open>The final message starts with an emoji (four bytes in UTF-8).\<close>

definition main :: "unit step" where
  "main =
     andThen checkStripeCLI
     (await getStripeSecretKey (\<lambda>STRIPE_SECRET_KEY.
      await createStripeWebhookSecret (\<lambda>STRIPE_WEBHOOK_SECRET.
      andThen checkSupabaseProject
      (await getSupabaseKeysApiUrl (\<lambda>NEXT_PUBLIC_SUPABASE_URL.
       await getSupabaseKeysAnonKey (\<lambda>NEXT_PUBLIC_SUPABASE_ANON_KEY.
       await getSupabaseKeysServiceRoleKey (\<lambda>SUPABASE_SERVICE_ROLE_KEY.
       let BASE_URL = ''http://localhost:3000'' in
       andThen
         (writeEnvFile
           [(''STRIPE_SECRET_KEY'', STRIPE_SECRET_KEY),
            (''STRIPE_WEBHOOK_SECRET'', STRIPE_WEBHOOK_SECRET),
            (''NEXT_PUBLIC_SUPABASE_URL'', NEXT_PUBLIC_SUPABASE_URL),
            (''NEXT_PUBLIC_SUPABASE_ANON_KEY'', NEXT_PUBLIC_SUPABASE_ANON_KEY),
            (''SUPABASE_SERVICE_ROLE_KEY'', SUPABASE_SERVICE_ROLE_KEY),
            (''BASE_URL'', BASE_URL)])
         (console_log
           ([CHR 0xF0, CHR 0x9F, CHR 0x8E, CHR 0x89] @ '' Setup completed successfully!'')))))))))"

text \<open>
  The last statement of the file, \<^verbatim>\<open>main().catch(console.error)\<close>: a rejection of \<open>main\<close>
  is printed and thereby handled, after which the process has nothing left to do and ends
  with the default status 0. Only \<^verbatim>\<open>process.exit\<close> sets another status. \<open>error_text\<close> is
  the first line of what \<^verbatim>\<open>console.error\<close> prints for an error, without the stack. A
  process that stays suspended has no status.
\<close>

datatype process_end = Terminated nat world | Suspended world

fun error_text :: "error \<Rightarrow> string" where
  "error_text (Error msg) = ''Error: '' @ msg"
| "error_text (ExecError cmd) = ''Error: Command failed: '' @ cmd"
| "error_text (IOError name) = ''Error: cannot write '' @ name"

definition script :: "world \<Rightarrow> process_end" where
  "script w =
     (case main w of
        Return _ w' \<Rightarrow> Terminated 0 w'
      | Throw e w' \<Rightarrow> Terminated 0 (emit (Err (error_text e)) w')
      | Exited n w' \<Rightarrow> Terminated n w'
      | Blocked w' \<Rightarrow> Suspended w')"

section \<open>The Supabase helpers\<close>

text \<open>
  \<^verbatim>\<open>getSupabaseKeys\<close> reads two variables of \<^verbatim>\<open>process.env\<close>, a partial map from names to
  strings. \<^verbatim>\<open>!x\<close> holds of a variable that is undefined or the empty string.
\<close>

record supabase_keys =
  publicSupabaseUrl :: string
  publicSupabaseAnonKey :: string

definition falsy :: "string option \<Rightarrow> bool" where
  "falsy x = (case x of None \<Rightarrow> True | Some s \<Rightarrow> s = [])"

definition getSupabaseKeys :: "(string \<rightharpoonup> string) \<Rightarrow> error + supabase_keys" where
  "getSupabaseKeys env =
     (if falsy (env ''NEXT_PUBLIC_SUPABASE_URL'')
      then Inl (Error ''NEXT_PUBLIC_SUPABASE_URL is not defined'')
      else if falsy (env ''NEXT_PUBLIC_SUPABASE_ANON_KEY'')
      then Inl (Error ''NEXT_PUBLIC_SUPABASE_ANON_KEY is not defined'')
      else Inr \<lparr>publicSupabaseUrl = the (env ''NEXT_PUBLIC_SUPABASE_URL''),
                publicSupabaseAnonKey = the (env ''NEXT_PUBLIC_SUPABASE_ANON_KEY'')\<rparr>)"












section \<open>Observations on a run\<close>

text \<open>A process started with nothing done yet, on a writable directory without files.\<close>

definition fresh :: "string list \<Rightarrow> (string \<Rightarrow> exec_result list) \<Rightarrow> world" where
  "fresh answers tool =
     \<lparr>stdin = answers, shell = tool, platform = ''linux'', writable = True,
      files = Map.empty, trace = []\<rparr>"

text \<open>The prompts issued, and the number of runs of a command, in a trace.\<close>

fun prompts :: "event list \<Rightarrow> string list" where
  "prompts [] = []"
| "prompts (Ask q # es) = q # prompts es"
| "prompts (e # es) = prompts es"

fun runs_of :: "string \<Rightarrow> event list \<Rightarrow> nat" where
  "runs_of cmd [] = 0"
| "runs_of cmd (Exec c # es) = (if c = cmd then Suc (runs_of cmd es) else runs_of cmd es)"
| "runs_of cmd (e # es) = runs_of cmd es"

fun writes :: "event list \<Rightarrow> (string \<times> string) list" where
  "writes [] = []"
| "writes (WriteFile name data # es) = (name, data) # writes es"
| "writes (e # es) = writes es"

text \<open>
  The lines of a text, as \<^verbatim>\<open>text.split('\n')\<close> gives them: a text that ends with a newline
  has an empty last line.
\<close>

fun lines_of :: "string \<Rightarrow> string list" where
  "lines_of [] = [[]]"
| "lines_of (c # cs) =
     (if c = CHR 0x0A then [] # lines_of cs
      else (c # hd (lines_of cs)) # tl (lines_of cs))"

text \<open>
  A tool that is installed and authenticated and whose \<^verbatim>\<open>listen\<close> command prints a secret,
  and an operator who has a project and types the four values.
\<close>

definition happy_tool :: "string \<Rightarrow> exec_result list" where
  "happy_tool =
     (\<lambda>_. [])(''stripe --version'' := [ExecOk ''stripe version 1.21.8''],
               ''stripe config --list'' := [ExecOk ''test_mode_api_key = sk_test''],
               ''stripe listen --print-secret'' := [ExecOk ''whsec_AbC123''])"

definition happy :: world where
  "happy = fresh [''sk_test_51'', ''y'', ''https://x.supabase.co'', ''anon'', ''role''] happy_tool"






section \<open>Basic facts\<close>

lemmas step_defs =
  await_def andThen_def try_catch_def return_def skip_def throw_def emit_def
  console_log_def console_error_def process_exit_def os_platform_def
  question_def execAsync_def fs_writeFile_def

lemma prompts_append: "prompts (xs @ ys) = prompts xs @ prompts ys"
  by (induction xs rule: prompts.induct) simp_all

lemma runs_of_append: "runs_of cmd (xs @ ys) = runs_of cmd xs + runs_of cmd ys"
  by (induction cmd xs rule: runs_of.induct) simp_all

lemma writes_append: "writes (xs @ ys) = writes xs @ writes ys"
  by (induction xs rule: writes.induct) simp_all

section \<open>The pattern of the webhook secret\<close>

text \<open>
  The search returns nothing exactly when no position of the text starts a token, and
  otherwise the token that starts first, extended as far as letters and digits go.
\<close>

lemma match_whsec_here:
  "prefix ''whsec_'' (a # s) \<and> takeWhile is_alnum (drop 6 (a # s)) \<noteq> [] \<Longrightarrow>
   match_whsec (a # s) = Some (''whsec_'' @ takeWhile is_alnum (drop 6 (a # s)))"
  by (simp only: match_whsec.simps simp_thms if_True)

lemma match_whsec_later:
  "\<not> (prefix ''whsec_'' (a # s) \<and> takeWhile is_alnum (drop 6 (a # s)) \<noteq> []) \<Longrightarrow>
   match_whsec (a # s) = match_whsec s"
  by (simp only: match_whsec.simps simp_thms if_False)

lemma match_here_iff:
  "prefix ''whsec_'' s \<and> takeWhile is_alnum (drop 6 s) \<noteq> [] \<longleftrightarrow>
   (\<exists>c r. s = ''whsec_'' @ c # r \<and> is_alnum c)"
proof
  assume h: "prefix ''whsec_'' s \<and> takeWhile is_alnum (drop 6 s) \<noteq> []"
  then obtain t where s: "s = ''whsec_'' @ t" by (auto simp: prefix_def)
  with h have "takeWhile is_alnum t \<noteq> []" by simp
  then obtain c r where "t = c # r" "is_alnum c"
    by (cases t) (auto split: if_splits)
  with s show "\<exists>c r. s = ''whsec_'' @ c # r \<and> is_alnum c" by blast
next
  assume "\<exists>c r. s = ''whsec_'' @ c # r \<and> is_alnum c"
  then obtain c r where "s = ''whsec_'' @ c # r" "is_alnum c" by blast
  then show "prefix ''whsec_'' s \<and> takeWhile is_alnum (drop 6 s) \<noteq> []" by simp
qed

lemma match_whsec_None_iff:
  "match_whsec s = None \<longleftrightarrow> \<not> (\<exists>pre c r. s = pre @ ''whsec_'' @ c # r \<and> is_alnum c)"
proof (induction s)
  case Nil
  show ?case by simp
next
  case (Cons a s)
  let ?here = "prefix ''whsec_'' (a # s) \<and> takeWhile is_alnum (drop 6 (a # s)) \<noteq> []"
  show ?case
  proof (cases ?here)
    case True
    then have "\<exists>c r. a # s = [] @ ''whsec_'' @ c # r \<and> is_alnum c"
      using match_here_iff [of "a # s"] by simp
    then have "\<exists>pre c r. a # s = pre @ ''whsec_'' @ c # r \<and> is_alnum c" by blast
    moreover from True have "match_whsec (a # s) \<noteq> None"
      using match_whsec_here [of a s] by simp
    ultimately show ?thesis by blast
  next
    case False
    then have eq: "match_whsec (a # s) = match_whsec s" by (rule match_whsec_later)
    have "(\<exists>pre c r. a # s = pre @ ''whsec_'' @ c # r \<and> is_alnum c) \<longleftrightarrow>
          (\<exists>pre c r. s = pre @ ''whsec_'' @ c # r \<and> is_alnum c)" (is "?L \<longleftrightarrow> ?R")
    proof
      assume ?L
      then obtain pre c r where p: "a # s = pre @ ''whsec_'' @ c # r" "is_alnum c" by blast
      show ?R
      proof (cases pre)
        case Nil
        with p have "\<exists>c r. a # s = ''whsec_'' @ c # r \<and> is_alnum c" by auto
        with False match_here_iff [of "a # s"] show ?thesis by blast
      next
        case (Cons b pre')
        with p have "s = pre' @ ''whsec_'' @ c # r" by simp
        with p(2) show ?thesis by blast
      qed
    next
      assume ?R
      then obtain pre c r where "s = pre @ ''whsec_'' @ c # r" "is_alnum c" by blast
      then have "a # s = (a # pre) @ ''whsec_'' @ c # r" by simp
      with \<open>is_alnum c\<close> show ?L by blast
    qed
    with eq Cons.IH show ?thesis by simp
  qed
qed

lemma takeWhile_decomp:
  "\<exists>suf. t = takeWhile P t @ suf \<and> (suf = [] \<or> \<not> P (hd suf))"
proof -
  have "t = takeWhile P t @ dropWhile P t" by simp
  moreover have "dropWhile P t = [] \<or> \<not> P (hd (dropWhile P t))"
    using hd_dropWhile [of P t] by blast
  ultimately show ?thesis by blast
qed

lemma match_whsec_Some:
  "match_whsec s = Some m \<Longrightarrow>
   \<exists>pre tok suf. s = pre @ m @ suf \<and> m = ''whsec_'' @ tok \<and> tok \<noteq> [] \<and>
     (\<forall>c\<in>set tok. is_alnum c) \<and> (suf = [] \<or> \<not> is_alnum (hd suf)) \<and>
     (\<forall>p c r. s = p @ ''whsec_'' @ c # r \<and> is_alnum c \<longrightarrow> length pre \<le> length p)"
proof (induction s)
  case Nil
  then show ?case by simp
next
  case (Cons a s)
  let ?here = "prefix ''whsec_'' (a # s) \<and> takeWhile is_alnum (drop 6 (a # s)) \<noteq> []"
  show ?case
  proof (cases ?here)
    case True
    then obtain t where t: "a # s = ''whsec_'' @ t" by (auto simp: prefix_def)
    with True have ne: "takeWhile is_alnum t \<noteq> []" by simp
    from match_whsec_here [OF True] Cons.prems
    have "m = ''whsec_'' @ takeWhile is_alnum (drop 6 (a # s))" by simp
    then have m: "m = ''whsec_'' @ takeWhile is_alnum t" by (simp only: t) simp
    obtain suf where suf: "t = takeWhile is_alnum t @ suf" "suf = [] \<or> \<not> is_alnum (hd suf)"
      using takeWhile_decomp [of t is_alnum] by blast
    have "a # s = [] @ m @ suf" using t m suf(1) by simp
    moreover have "\<forall>c\<in>set (takeWhile is_alnum t). is_alnum c"
      by (auto dest: set_takeWhileD)
    moreover have "\<forall>p c r. a # s = p @ ''whsec_'' @ c # r \<and> is_alnum c \<longrightarrow>
        length ([] :: string) \<le> length p" by simp
    ultimately show ?thesis using m ne suf(2) by blast
  next
    case False
    with Cons.prems have "match_whsec s = Some m" using match_whsec_later [of a s] by simp
    from Cons.IH [OF this] obtain pre tok suf where
      p: "s = pre @ m @ suf" "m = ''whsec_'' @ tok" "tok \<noteq> []" "\<forall>c\<in>set tok. is_alnum c"
         "suf = [] \<or> \<not> is_alnum (hd suf)"
         "\<forall>p c r. s = p @ ''whsec_'' @ c # r \<and> is_alnum c \<longrightarrow> length pre \<le> length p"
      by blast
    have "\<forall>q c r. a # s = q @ ''whsec_'' @ c # r \<and> is_alnum c \<longrightarrow>
        length (a # pre) \<le> length q"
    proof (intro allI impI)
      fix q c r
      assume q: "a # s = q @ ''whsec_'' @ c # r \<and> is_alnum c"
      show "length (a # pre) \<le> length q"
      proof (cases q)
        case Nil
        with q have "\<exists>c r. a # s = ''whsec_'' @ c # r \<and> is_alnum c" by auto
        with False match_here_iff [of "a # s"] show ?thesis by blast
      next
        case (Cons b q')
        with q have "s = q' @ ''whsec_'' @ c # r \<and> is_alnum c" by simp
        with p(6) have "length pre \<le> length q'" by blast
        with Cons show ?thesis by simp
      qed
    qed
    moreover have "a # s = (a # pre) @ m @ suf" using p(1) by simp
    ultimately show ?thesis using p(2-5) by blast
  qed
qed

lemma takeWhile_token:
  assumes "\<forall>c\<in>set tok. P c" and "suf = [] \<or> \<not> P (hd suf)"
  shows "takeWhile P (tok @ suf) = tok"
proof (cases suf)
  case Nil
  with assms(1) show ?thesis by simp
next
  case (Cons x xs)
  with assms have "\<not> P x" by simp
  with assms(1) Cons show ?thesis by (simp add: takeWhile_append2)
qed

lemma match_whsec_leftmost_longest:
  assumes s: "s = pre @ ''whsec_'' @ tok @ suf"
    and tok: "tok \<noteq> []" "\<forall>c\<in>set tok. is_alnum c"
    and suf: "suf = [] \<or> \<not> is_alnum (hd suf)"
    and first: "\<forall>p c r. s = p @ ''whsec_'' @ c # r \<and> is_alnum c \<longrightarrow> length pre \<le> length p"
  shows "match_whsec s = Some (''whsec_'' @ tok)"
proof -
  from tok obtain c t where ct: "tok = c # t" "is_alnum c" by (cases tok) auto
  with s have occ: "s = pre @ ''whsec_'' @ c # (t @ suf)" by simp
  with ct(2) have "\<exists>pre c r. s = pre @ ''whsec_'' @ c # r \<and> is_alnum c" by blast
  then have "match_whsec s \<noteq> None" using match_whsec_None_iff [of s] by blast
  then obtain m where m: "match_whsec s = Some m" by blast
  from match_whsec_Some [OF m] obtain pre' tok' suf' where
    d: "s = pre' @ m @ suf'" "m = ''whsec_'' @ tok'" "tok' \<noteq> []" "\<forall>c\<in>set tok'. is_alnum c"
       "suf' = [] \<or> \<not> is_alnum (hd suf')"
       "\<forall>p c r. s = p @ ''whsec_'' @ c # r \<and> is_alnum c \<longrightarrow> length pre' \<le> length p"
    by blast
  from d(3,4) obtain c' t' where ct': "tok' = c' # t'" "is_alnum c'" by (cases tok') auto
  with d(1,2) have occ': "s = pre' @ ''whsec_'' @ c' # (t' @ suf')" by simp
  from first occ' ct'(2) have "length pre \<le> length pre'" by blast
  moreover from d(6) occ ct(2) have "length pre' \<le> length pre" by blast
  ultimately have len: "length pre = length pre'" by simp
  from s d(1,2) have eq: "pre @ (''whsec_'' @ tok @ suf) = pre' @ (''whsec_'' @ tok' @ suf')"
    by simp
  with len have "''whsec_'' @ tok @ suf = ''whsec_'' @ tok' @ suf'" by (simp add: append_eq_append_conv)
  then have "tok @ suf = tok' @ suf'" by simp
  then have "takeWhile is_alnum (tok @ suf) = takeWhile is_alnum (tok' @ suf')" by simp
  then have "tok = tok'"
    using takeWhile_token [OF tok(2) suf] takeWhile_token [OF d(4) d(5)] by simp
  with m d(2) show ?thesis by simp
qed

lemma first_token_by_search:
  assumes "match_whsec (pre @ ''whsec_'') = None"
  shows "\<forall>p c r. pre @ ''whsec_'' @ rest = p @ ''whsec_'' @ c # r \<and> is_alnum c \<longrightarrow>
     length pre \<le> length p"
proof (intro allI impI)
  fix p c r
  assume h: "pre @ ''whsec_'' @ rest = p @ ''whsec_'' @ c # r \<and> is_alnum c"
  show "length pre \<le> length p"
  proof (rule ccontr)
    assume "\<not> length pre \<le> length p"
    then have len: "length (p @ ''whsec_'' @ [c]) \<le> length (pre @ ''whsec_'')" by simp
    have "prefix (p @ ''whsec_'' @ [c]) (pre @ ''whsec_'' @ rest)"
      using h by (simp add: prefix_def)
    moreover have "prefix (pre @ ''whsec_'') (pre @ ''whsec_'' @ rest)"
      by (simp add: prefix_def)
    ultimately have "prefix (p @ ''whsec_'' @ [c]) (pre @ ''whsec_'')"
      using len prefix_length_prefix by blast
    then obtain r' where "pre @ ''whsec_'' = (p @ ''whsec_'' @ [c]) @ r'"
      by (auto simp: prefix_def)
    then have "pre @ ''whsec_'' = p @ ''whsec_'' @ c # r'" by simp
    with h have "\<exists>p c r. pre @ ''whsec_'' = p @ ''whsec_'' @ c # r \<and> is_alnum c" by blast
    with assms match_whsec_None_iff [of "pre @ ''whsec_''"] show False by blast
  qed
qed

lemma token_occurs_iff:
  "(\<exists>pre tok suf. out = pre @ ''whsec_'' @ tok @ suf \<and> tok \<noteq> [] \<and> (\<forall>c\<in>set tok. is_alnum c))
   \<longleftrightarrow> match_whsec out \<noteq> None" (is "?T \<longleftrightarrow> _")
proof
  assume ?T
  then obtain pre tok suf where
    t: "out = pre @ ''whsec_'' @ tok @ suf" "tok \<noteq> []" "\<forall>c\<in>set tok. is_alnum c" by blast
  then obtain c t' where "tok = c # t'" "is_alnum c" by (cases tok) auto
  with t(1) have "out = pre @ ''whsec_'' @ c # (t' @ suf) \<and> is_alnum c" by simp
  then show "match_whsec out \<noteq> None" using match_whsec_None_iff [of out] by blast
next
  assume "match_whsec out \<noteq> None"
  then have "\<exists>pre c r. out = pre @ ''whsec_'' @ c # r \<and> is_alnum c"
    using match_whsec_None_iff [of out] by simp
  then obtain pre c r where "out = pre @ ''whsec_'' @ c # r" "is_alnum c" by blast
  then have "out = pre @ ''whsec_'' @ [c] @ r \<and> [c] \<noteq> [] \<and> (\<forall>x\<in>set [c]. is_alnum x)" by simp
  then show ?T by blast
qed

section \<open>The project-existence gate\<close>

text \<open>
  C3. After a first-level answer \<open>n\<close> (in any case) and a first confirmation answer that is
  not \<open>continue\<close> (in any case), the gate asks for the confirmation exactly once more: it
  has then issued three prompts and read three lines. If the second answer is \<open>continue\<close>
  (in any case) the gate returns, which is the confirmed state; otherwise it prints the
  cancellation message and ends the process with status 1. No third confirmation prompt is
  issued in either case.
\<close>

theorem checkSupabaseProject_second_chance:
  assumes "stdin w = hasProject # a1 # a2 # rest"
    and "toLowerCase hasProject = ''n''"
    and "toLowerCase a1 \<noteq> ''continue''"
  shows \<open>checkSupabaseProject w =
    (let w' = w\<lparr>stdin := rest, trace := trace w @
        [Log (newline @ ''Step 4: Checking Supabase Project Setup''),
         Ask ''Do you already have a Supabase project? (y/n): '',
         Log ''You can create a new Supabase project at: https://database.new'',
         Ask ''Type "continue" when you have created your project: '',
         Ask ''Please type "continue" when you have created your project: '']\<rparr>
     in if toLowerCase a2 = ''continue'' then Return () w'
        else Exited 1
          (emit (Err ''Setup cancelled. Please create a Supabase project and try again.'') w'))\<close>
  using assms by (simp add: checkSupabaseProject_def step_defs Let_def)

theorem checkSupabaseProject_second_chance_witness:
  \<open>toLowerCase ''N'' = ''n'' \<and> toLowerCase ''no'' \<noteq> ''continue'' \<and>
   checkSupabaseProject (fresh [''N'', ''no'', ''Continue'', ''x''] (\<lambda>_. [])) =
     Return () (fresh [''x''] (\<lambda>_. []) \<lparr>trace :=
        [Log (newline @ ''Step 4: Checking Supabase Project Setup''),
         Ask ''Do you already have a Supabase project? (y/n): '',
         Log ''You can create a new Supabase project at: https://database.new'',
         Ask ''Type "continue" when you have created your project: '',
         Ask ''Please type "continue" when you have created your project: '']\<rparr>) \<and>
   checkSupabaseProject (fresh [''n'', ''no'', ''nope'', ''continue''] (\<lambda>_. [])) =
     Exited 1 (fresh [''continue''] (\<lambda>_. []) \<lparr>trace :=
        [Log (newline @ ''Step 4: Checking Supabase Project Setup''),
         Ask ''Do you already have a Supabase project? (y/n): '',
         Log ''You can create a new Supabase project at: https://database.new'',
         Ask ''Type "continue" when you have created your project: '',
         Ask ''Please type "continue" when you have created your project: '',
         Err ''Setup cancelled. Please create a Supabase project and try again.'']\<rparr>)\<close>
  using checkSupabaseProject_second_chance
    [of "fresh [''N'', ''no'', ''Continue'', ''x''] (\<lambda>_. [])" "''N''" "''no''" "''Continue''" "[''x'']"]
    checkSupabaseProject_second_chance
    [of "fresh [''n'', ''no'', ''nope'', ''continue''] (\<lambda>_. [])" "''n''" "''no''" "''nope''"
      "[''continue'']"]
  by (simp add: fresh_def emit_def toLowerCase_def toLowerChar_def)

text \<open>
  C7. A first-level answer that is neither \<open>y\<close> nor \<open>n\<close> (in any case) makes the gate print
  the invalid-input message and end the process with status 1; an answer \<open>y\<close> (in any case)
  makes it return at once. In both cases the first-level prompt is the only prompt issued
  and the only line read.
\<close>

theorem checkSupabaseProject_first_level:
  assumes "stdin w = hasProject # rest"
  shows \<open>(toLowerCase hasProject = ''y'' \<longrightarrow>
      checkSupabaseProject w = Return () (w\<lparr>stdin := rest, trace := trace w @
        [Log (newline @ ''Step 4: Checking Supabase Project Setup''),
         Ask ''Do you already have a Supabase project? (y/n): '',
         Log ''Great! Continuing with existing Supabase project...'']\<rparr>)) \<and>
    (toLowerCase hasProject \<noteq> ''y'' \<and> toLowerCase hasProject \<noteq> ''n'' \<longrightarrow>
      checkSupabaseProject w = Exited 1 (w\<lparr>stdin := rest, trace := trace w @
        [Log (newline @ ''Step 4: Checking Supabase Project Setup''),
         Ask ''Do you already have a Supabase project? (y/n): '',
         Err ''Invalid input. Please enter "y" or "n".'']\<rparr>))\<close>
  using assms by (simp add: checkSupabaseProject_def step_defs)

theorem checkSupabaseProject_first_level_witness:
  \<open>toLowerCase ''maybe'' \<noteq> ''y'' \<and> toLowerCase ''maybe'' \<noteq> ''n'' \<and>
   checkSupabaseProject (fresh [''maybe'', ''continue''] (\<lambda>_. [])) =
     Exited 1 (fresh [''continue''] (\<lambda>_. []) \<lparr>trace :=
        [Log (newline @ ''Step 4: Checking Supabase Project Setup''),
         Ask ''Do you already have a Supabase project? (y/n): '',
         Err ''Invalid input. Please enter "y" or "n".'']\<rparr>) \<and>
   toLowerCase ''Y'' = ''y'' \<and>
   checkSupabaseProject (fresh [''Y'', ''continue''] (\<lambda>_. [])) =
     Return () (fresh [''continue''] (\<lambda>_. []) \<lparr>trace :=
        [Log (newline @ ''Step 4: Checking Supabase Project Setup''),
         Ask ''Do you already have a Supabase project? (y/n): '',
         Log ''Great! Continuing with existing Supabase project...'']\<rparr>)\<close>
  using checkSupabaseProject_first_level
      [of "fresh [''maybe'', ''continue''] (\<lambda>_. [])" "''maybe''" "[''continue'']"]
    checkSupabaseProject_first_level
      [of "fresh [''Y'', ''continue''] (\<lambda>_. [])" "''Y''" "[''continue'']"]
  by (simp add: fresh_def toLowerCase_def toLowerChar_def)

section \<open>The webhook-secret extractor\<close>

lemma createStripeWebhookSecret_run:
  assumes "shell w ''stripe listen --print-secret'' = ExecOk out # later"
  shows "createStripeWebhookSecret w =
    (let tried = w\<lparr>shell := (shell w)(''stripe listen --print-secret'' := later),
                trace := trace w @
                  [Log (newline @ ''Step 3: Creating Stripe webhook secret...''),
                   Exec ''stripe listen --print-secret'']\<rparr>
     in case match_whsec out of
          Some m \<Rightarrow> Return m (emit (Log ''Stripe webhook secret created.'') tried)
        | None \<Rightarrow> Throw (Error ''Failed to extract Stripe webhook secret'')
            (tried\<lparr>trace := trace tried @
               Err ''Failed to create Stripe webhook secret. Check your Stripe CLI installation and permissions.'' #
               (if platform w = ''win32''
                then [Log ''Note: On Windows, you may need to run this script as an administrator.'']
                else [])\<rparr>))"
  using assms by (simp add: createStripeWebhookSecret_def step_defs split: option.split)

lemma extracts_core:
  assumes run: "R = (case match_whsec out of Some m \<Rightarrow> Return m created | None \<Rightarrow> Throw e failed)"
  shows "(\<forall>pre tok suf.
               out = pre @ ''whsec_'' @ tok @ suf \<and> tok \<noteq> [] \<and> (\<forall>c\<in>set tok. is_alnum c) \<and>
               (suf = [] \<or> \<not> is_alnum (hd suf)) \<and>
               (\<forall>p c r. out = p @ ''whsec_'' @ c # r \<and> is_alnum c \<longrightarrow> length pre \<le> length p)
               \<longrightarrow> R = Return (''whsec_'' @ tok) created) \<and>
            ((\<exists>pre tok suf. out = pre @ ''whsec_'' @ tok @ suf \<and> tok \<noteq> [] \<and>
                (\<forall>c\<in>set tok. is_alnum c))
               \<longrightarrow> (\<exists>pre tok suf. R = Return (''whsec_'' @ tok) created \<and>
                     out = pre @ ''whsec_'' @ tok @ suf \<and> tok \<noteq> [] \<and> (\<forall>c\<in>set tok. is_alnum c))) \<and>
            (\<not> (\<exists>pre tok suf. out = pre @ ''whsec_'' @ tok @ suf \<and> tok \<noteq> [] \<and>
                (\<forall>c\<in>set tok. is_alnum c))
               \<longrightarrow> R = Throw e failed)"
proof (intro conjI allI impI)
  fix pre tok suf
  assume "out = pre @ ''whsec_'' @ tok @ suf \<and> tok \<noteq> [] \<and> (\<forall>c\<in>set tok. is_alnum c) \<and>
               (suf = [] \<or> \<not> is_alnum (hd suf)) \<and>
               (\<forall>p c r. out = p @ ''whsec_'' @ c # r \<and> is_alnum c \<longrightarrow> length pre \<le> length p)"
  then have "match_whsec out = Some (''whsec_'' @ tok)"
    using match_whsec_leftmost_longest [of out pre tok suf] by blast
  with run show "R = Return (''whsec_'' @ tok) created" by simp
next
  assume "\<exists>pre tok suf. out = pre @ ''whsec_'' @ tok @ suf \<and> tok \<noteq> [] \<and> (\<forall>c\<in>set tok. is_alnum c)"
  then have "match_whsec out \<noteq> None" by (rule token_occurs_iff [THEN iffD1])
  then obtain m where m: "match_whsec out = Some m" by blast
  from match_whsec_Some [OF m] obtain pre tok suf where
    d: "out = pre @ m @ suf" "m = ''whsec_'' @ tok" "tok \<noteq> []" "\<forall>c\<in>set tok. is_alnum c"
    by blast
  from d(1,2) have "out = pre @ ''whsec_'' @ tok @ suf" by simp
  moreover from run m d(2) have "R = Return (''whsec_'' @ tok) created" by simp
  ultimately show "\<exists>pre tok suf. R = Return (''whsec_'' @ tok) created \<and>
       out = pre @ ''whsec_'' @ tok @ suf \<and> tok \<noteq> [] \<and> (\<forall>c\<in>set tok. is_alnum c)"
    using d(3,4) by blast
next
  assume absent: "\<not> (\<exists>pre tok suf. out = pre @ ''whsec_'' @ tok @ suf \<and> tok \<noteq> [] \<and>
                (\<forall>c\<in>set tok. is_alnum c))"
  have "match_whsec out = None"
  proof (rule ccontr)
    assume "match_whsec out \<noteq> None"
    then have "\<exists>pre tok suf. out = pre @ ''whsec_'' @ tok @ suf \<and> tok \<noteq> [] \<and>
                (\<forall>c\<in>set tok. is_alnum c)"
      by (rule token_occurs_iff [THEN iffD2])
    with absent show False by (rule notE)
  qed
  with run show "R = Throw e failed" by simp
qed

text \<open>
  C4. When the \<^verbatim>\<open>listen\<close> command succeeds with standard output \<open>out\<close>, the extractor
  searches \<open>out\<close> for \<open>whsec_\<close> followed by one or more letters or digits:
  \<^item> it returns the token \<open>whsec_tok\<close> that starts first in \<open>out\<close>, taken up to the first
    character that is no letter or digit (so \<open>whsec_AbC123\<close> for \<open>tok = AbC123\<close>);
  \<^item> whenever some token occurs in \<open>out\<close>, it returns a token that occurs in \<open>out\<close>;
  \<^item> when no token occurs anywhere in \<open>out\<close>, it does not return: it throws the error
    \<open>Failed to extract Stripe webhook secret\<close>.
\<close>

theorem createStripeWebhookSecret_extracts:
  assumes "shell w ''stripe listen --print-secret'' = ExecOk out # later"
  shows "(let tried = w\<lparr>shell := (shell w)(''stripe listen --print-secret'' := later),
                trace := trace w @
                  [Log (newline @ ''Step 3: Creating Stripe webhook secret...''),
                   Exec ''stripe listen --print-secret'']\<rparr>;
              created = emit (Log ''Stripe webhook secret created.'') tried;
              failed = tried\<lparr>trace := trace tried @
                  Err ''Failed to create Stripe webhook secret. Check your Stripe CLI installation and permissions.'' #
                  (if platform w = ''win32''
                   then [Log ''Note: On Windows, you may need to run this script as an administrator.'']
                   else [])\<rparr>
          in
            (\<forall>pre tok suf.
               out = pre @ ''whsec_'' @ tok @ suf \<and> tok \<noteq> [] \<and> (\<forall>c\<in>set tok. is_alnum c) \<and>
               (suf = [] \<or> \<not> is_alnum (hd suf)) \<and>
               (\<forall>p c r. out = p @ ''whsec_'' @ c # r \<and> is_alnum c \<longrightarrow> length pre \<le> length p)
               \<longrightarrow> createStripeWebhookSecret w = Return (''whsec_'' @ tok) created) \<and>
            ((\<exists>pre tok suf. out = pre @ ''whsec_'' @ tok @ suf \<and> tok \<noteq> [] \<and>
                (\<forall>c\<in>set tok. is_alnum c))
               \<longrightarrow> (\<exists>pre tok suf. createStripeWebhookSecret w = Return (''whsec_'' @ tok) created \<and>
                     out = pre @ ''whsec_'' @ tok @ suf \<and> tok \<noteq> [] \<and> (\<forall>c\<in>set tok. is_alnum c))) \<and>
            (\<not> (\<exists>pre tok suf. out = pre @ ''whsec_'' @ tok @ suf \<and> tok \<noteq> [] \<and>
                (\<forall>c\<in>set tok. is_alnum c))
               \<longrightarrow> createStripeWebhookSecret w =
                     Throw (Error ''Failed to extract Stripe webhook secret'') failed))"
  unfolding Let_def
  by (rule extracts_core) (rule createStripeWebhookSecret_run [OF assms, unfolded Let_def])

theorem createStripeWebhookSecret_extracts_witness:
  "createStripeWebhookSecret
     (fresh [] ((\<lambda>_. [])(''stripe listen --print-secret'' :=
        [ExecOk ''Ready! Your webhook signing secret is whsec_AbC123 (^C to quit)'']))) =
   Return ''whsec_AbC123''
     (fresh [] ((\<lambda>_. [])(''stripe listen --print-secret'' := [])) \<lparr>trace :=
        [Log (newline @ ''Step 3: Creating Stripe webhook secret...''),
         Exec ''stripe listen --print-secret'',
         Log ''Stripe webhook secret created.'']\<rparr>) \<and>
   createStripeWebhookSecret
     (fresh [] ((\<lambda>_. [])(''stripe listen --print-secret'' := [ExecOk ''Ready! whsec_ (^C to quit)'']))) =
   Throw (Error ''Failed to extract Stripe webhook secret'')
     (fresh [] ((\<lambda>_. [])(''stripe listen --print-secret'' := [])) \<lparr>trace :=
        [Log (newline @ ''Step 3: Creating Stripe webhook secret...''),
         Exec ''stripe listen --print-secret'',
         Err ''Failed to create Stripe webhook secret. Check your Stripe CLI installation and permissions.'']\<rparr>)"
proof -
  let ?sh1 = "(\<lambda>_. [])(''stripe listen --print-secret'' :=
        [ExecOk ''Ready! Your webhook signing secret is whsec_AbC123 (^C to quit)''])"
  let ?sh2 = "(\<lambda>_. [])(''stripe listen --print-secret'' := [ExecOk ''Ready! whsec_ (^C to quit)''])"
  have first: "\<forall>p c r. ''Ready! Your webhook signing secret is '' @ ''whsec_'' @ ''AbC123 (^C to quit)'' =
       p @ ''whsec_'' @ c # r \<and> is_alnum c \<longrightarrow>
       length ''Ready! Your webhook signing secret is '' \<le> length p"
    by (rule first_token_by_search) (simp add: is_alnum_def)
  have absent: "\<not> (\<exists>pre tok suf. ''Ready! whsec_ (^C to quit)'' = pre @ ''whsec_'' @ tok @ suf \<and>
      tok \<noteq> [] \<and> (\<forall>c\<in>set tok. is_alnum c))"
    by (simp only: token_occurs_iff) (simp add: is_alnum_def)
  have h1: "shell (fresh [] ?sh1) ''stripe listen --print-secret'' =
      ExecOk ''Ready! Your webhook signing secret is whsec_AbC123 (^C to quit)'' # []"
    by (simp add: fresh_def)
  have h2: "shell (fresh [] ?sh2) ''stripe listen --print-secret'' =
      ExecOk ''Ready! whsec_ (^C to quit)'' # []"
    by (simp add: fresh_def)
  have a: "createStripeWebhookSecret (fresh [] ?sh1) = Return (''whsec_'' @ ''AbC123'')
     (fresh [] ((\<lambda>_. [])(''stripe listen --print-secret'' := [])) \<lparr>trace :=
        [Log (newline @ ''Step 3: Creating Stripe webhook secret...''),
         Exec ''stripe listen --print-secret'',
         Log ''Stripe webhook secret created.'']\<rparr>)"
    using createStripeWebhookSecret_extracts [OF h1, unfolded Let_def, THEN conjunct1,
        rule_format, of "''Ready! Your webhook signing secret is ''" "''AbC123''" "'' (^C to quit)''"]
      first
    by (simp add: fresh_def emit_def is_alnum_def)
  have b: "createStripeWebhookSecret (fresh [] ?sh2) =
    Throw (Error ''Failed to extract Stripe webhook secret'')
     (fresh [] ((\<lambda>_. [])(''stripe listen --print-secret'' := [])) \<lparr>trace :=
        [Log (newline @ ''Step 3: Creating Stripe webhook secret...''),
         Exec ''stripe listen --print-secret'',
         Err ''Failed to create Stripe webhook secret. Check your Stripe CLI installation and permissions.'']\<rparr>)"
    using createStripeWebhookSecret_extracts [OF h2, unfolded Let_def, THEN conjunct2, THEN conjunct2]
      absent
    by (simp add: fresh_def)
  from a b show ?thesis by simp
qed

section \<open>The external-tool verifier\<close>

lemma checkStripeCLI_not_installed:
  assumes "shell w ''stripe --version'' = ExecFail # vs"
  shows "checkStripeCLI w = Exited 1 (w\<lparr>
        shell := (shell w)(''stripe --version'' := vs),
        trace := trace w @
        [Log ''Step 1: Checking if Stripe CLI is installed and authenticated...'',
         Exec ''stripe --version'',
         Err ''Stripe CLI is not installed. Please install it and try again.'',
         Log ''To install Stripe CLI, follow these steps:'',
         Log ''1. Visit: https://docs.stripe.com/stripe-cli'',
         Log ''2. Download and install the Stripe CLI for your operating system'',
         Log ''3. After installation, run: stripe login'',
         Log ''After installation and authentication, please run this setup script again.'']\<rparr>)"
  using assms by (simp add: checkStripeCLI_def step_defs)

text \<open>
  C5. The tool is installed and the first authentication probe fails; the operator then
  answers the confirmation prompt.
  \<^item> If the answer is not \<open>y\<close> (in any case), the process ends with status 1 and the probe
    has run once only.
  \<^item> If the answer is \<open>y\<close> (in any case), the probe runs a second time and no more: when it
    fails the process ends with status 1, when it succeeds the verifier returns.
\<close>

theorem checkStripeCLI_auth_failure:
  assumes "shell w ''stripe --version'' = ExecOk v # vs"
    and "shell w ''stripe config --list'' = ExecFail # probes"
    and "stdin w = answer # rest"
  shows "(toLowerCase answer \<noteq> ''y'' \<longrightarrow>
      checkStripeCLI w = Exited 1 (w\<lparr>stdin := rest,
        shell := (shell w)(''stripe --version'' := vs, ''stripe config --list'' := probes),
        trace := trace w @
        [Log ''Step 1: Checking if Stripe CLI is installed and authenticated...'',
         Exec ''stripe --version'',
         Log ''Stripe CLI is installed.'',
         Exec ''stripe config --list'',
         Log ''Stripe CLI is not authenticated or the authentication has expired.'',
         Log ''Please run: stripe login'',
         Ask ''Have you completed the authentication? (y/n): '',
         Log ''Please authenticate with Stripe CLI and run this script again.'']\<rparr>)) \<and>
    (toLowerCase answer = ''y'' \<longrightarrow>
      (\<forall>ps. probes = ExecFail # ps \<longrightarrow>
        checkStripeCLI w = Exited 1 (w\<lparr>stdin := rest,
          shell := (shell w)(''stripe --version'' := vs, ''stripe config --list'' := ps),
          trace := trace w @
          [Log ''Step 1: Checking if Stripe CLI is installed and authenticated...'',
           Exec ''stripe --version'',
           Log ''Stripe CLI is installed.'',
           Exec ''stripe config --list'',
           Log ''Stripe CLI is not authenticated or the authentication has expired.'',
           Log ''Please run: stripe login'',
           Ask ''Have you completed the authentication? (y/n): '',
           Exec ''stripe config --list'',
           Err ''Failed to verify Stripe CLI authentication. Please try again.'']\<rparr>)) \<and>
      (\<forall>out ps. probes = ExecOk out # ps \<longrightarrow>
        checkStripeCLI w = Return () (w\<lparr>stdin := rest,
          shell := (shell w)(''stripe --version'' := vs, ''stripe config --list'' := ps),
          trace := trace w @
          [Log ''Step 1: Checking if Stripe CLI is installed and authenticated...'',
           Exec ''stripe --version'',
           Log ''Stripe CLI is installed.'',
           Exec ''stripe config --list'',
           Log ''Stripe CLI is not authenticated or the authentication has expired.'',
           Log ''Please run: stripe login'',
           Ask ''Have you completed the authentication? (y/n): '',
           Exec ''stripe config --list'',
           Log ''Stripe CLI authentication confirmed.'']\<rparr>)))"
  using assms by (simp add: checkStripeCLI_def step_defs)

theorem checkStripeCLI_auth_failure_witness:
  "(\<exists>w'. checkStripeCLI (fresh [''no'', ''sk_test'']
        ((\<lambda>_. [])(''stripe --version'' := [ExecOk ''stripe version 1.21.8''],
                    ''stripe config --list'' := [ExecFail, ExecOk ''ok'']))) = Exited 1 w' \<and>
      runs_of ''stripe config --list'' (trace w') = 1 \<and> stdin w' = [''sk_test'']) \<and>
   (\<exists>w'. checkStripeCLI (fresh [''Y'', ''sk_test'']
        ((\<lambda>_. [])(''stripe --version'' := [ExecOk ''stripe version 1.21.8''],
                    ''stripe config --list'' := [ExecFail, ExecFail, ExecOk ''ok'']))) = Exited 1 w' \<and>
      runs_of ''stripe config --list'' (trace w') = 2 \<and> stdin w' = [''sk_test'']) \<and>
   (\<exists>w'. checkStripeCLI (fresh [''y'', ''sk_test'']
        ((\<lambda>_. [])(''stripe --version'' := [ExecOk ''stripe version 1.21.8''],
                    ''stripe config --list'' := [ExecFail, ExecOk ''ok'', ExecFail]))) = Return () w' \<and>
      runs_of ''stripe config --list'' (trace w') = 2 \<and> stdin w' = [''sk_test''])"
  using checkStripeCLI_auth_failure
      [of "fresh [''no'', ''sk_test'']
        ((\<lambda>_. [])(''stripe --version'' := [ExecOk ''stripe version 1.21.8''],
                    ''stripe config --list'' := [ExecFail, ExecOk ''ok'']))"
          "''stripe version 1.21.8''" "[]" "[ExecOk ''ok'']" "''no''" "[''sk_test'']"]
    checkStripeCLI_auth_failure
      [of "fresh [''Y'', ''sk_test'']
        ((\<lambda>_. [])(''stripe --version'' := [ExecOk ''stripe version 1.21.8''],
                    ''stripe config --list'' := [ExecFail, ExecFail, ExecOk ''ok'']))"
          "''stripe version 1.21.8''" "[]" "[ExecFail, ExecOk ''ok'']" "''Y''" "[''sk_test'']"]
    checkStripeCLI_auth_failure
      [of "fresh [''y'', ''sk_test'']
        ((\<lambda>_. [])(''stripe --version'' := [ExecOk ''stripe version 1.21.8''],
                    ''stripe config --list'' := [ExecFail, ExecOk ''ok'', ExecFail]))"
          "''stripe version 1.21.8''" "[]" "[ExecOk ''ok'', ExecFail]" "''y''" "[''sk_test'']"]
  by (simp add: fresh_def toLowerCase_def toLowerChar_def)

text \<open>
  C6. When the installation probe \<^verbatim>\<open>stripe --version\<close> fails, the whole script ends with
  status 1 right after the installation guidance: no prompt has been issued and no line of
  the operator's input has been read, so no secret was ever asked for.
\<close>

theorem main_not_installed:
  assumes "shell w ''stripe --version'' = ExecFail # vs"
  shows "(let w' = w\<lparr>shell := (shell w)(''stripe --version'' := vs),
            trace := trace w @
              [Log ''Step 1: Checking if Stripe CLI is installed and authenticated...'',
               Exec ''stripe --version'',
               Err ''Stripe CLI is not installed. Please install it and try again.'',
               Log ''To install Stripe CLI, follow these steps:'',
               Log ''1. Visit: https://docs.stripe.com/stripe-cli'',
               Log ''2. Download and install the Stripe CLI for your operating system'',
               Log ''3. After installation, run: stripe login'',
               Log ''After installation and authentication, please run this setup script again.'']\<rparr>
          in main w = Exited 1 w' \<and> script w = Terminated 1 w' \<and>
             prompts (trace w') = prompts (trace w) \<and> stdin w' = stdin w)"
  using checkStripeCLI_not_installed [OF assms]
  by (simp add: main_def script_def await_def andThen_def prompts_append Let_def)

theorem main_not_installed_witness:
  "\<exists>w'. script (fresh [''sk_test'', ''y'', ''u'', ''a'', ''r'']
        ((\<lambda>_. [])(''stripe --version'' := [ExecFail]))) = Terminated 1 w' \<and>
      prompts (trace w') = [] \<and> stdin w' = [''sk_test'', ''y'', ''u'', ''a'', ''r'']"
  using main_not_installed
      [of "fresh [''sk_test'', ''y'', ''u'', ''a'', ''r''] ((\<lambda>_. [])(''stripe --version'' := [ExecFail]))" "[]"]
  by (simp add: fresh_def Let_def)

section \<open>The key helper\<close>

text \<open>
  C9. \<^verbatim>\<open>getSupabaseKeys\<close> throws when the URL variable is absent or empty, throws when the
  anonymous-key variable is absent or empty, and otherwise returns exactly the two values
  of the environment.
\<close>

theorem getSupabaseKeys_contract:
  "(env ''NEXT_PUBLIC_SUPABASE_URL'' = None \<or> env ''NEXT_PUBLIC_SUPABASE_URL'' = Some []
      \<longrightarrow> getSupabaseKeys env = Inl (Error ''NEXT_PUBLIC_SUPABASE_URL is not defined'')) \<and>
   (\<forall>u. env ''NEXT_PUBLIC_SUPABASE_URL'' = Some u \<and> u \<noteq> [] \<and>
        (env ''NEXT_PUBLIC_SUPABASE_ANON_KEY'' = None \<or>
         env ''NEXT_PUBLIC_SUPABASE_ANON_KEY'' = Some [])
      \<longrightarrow> getSupabaseKeys env = Inl (Error ''NEXT_PUBLIC_SUPABASE_ANON_KEY is not defined'')) \<and>
   (\<forall>u a. env ''NEXT_PUBLIC_SUPABASE_URL'' = Some u \<and> u \<noteq> [] \<and>
          env ''NEXT_PUBLIC_SUPABASE_ANON_KEY'' = Some a \<and> a \<noteq> []
      \<longrightarrow> getSupabaseKeys env = Inr \<lparr>publicSupabaseUrl = u, publicSupabaseAnonKey = a\<rparr>)"
  by (auto simp: getSupabaseKeys_def falsy_def split: option.splits)

theorem getSupabaseKeys_contract_witness:
  "getSupabaseKeys [''NEXT_PUBLIC_SUPABASE_URL'' \<mapsto> ''https://x.supabase.co'',
                    ''NEXT_PUBLIC_SUPABASE_ANON_KEY'' \<mapsto> ''anon'']
     = Inr \<lparr>publicSupabaseUrl = ''https://x.supabase.co'', publicSupabaseAnonKey = ''anon''\<rparr> \<and>
   getSupabaseKeys [''NEXT_PUBLIC_SUPABASE_URL'' \<mapsto> ''https://x.supabase.co'',
                    ''NEXT_PUBLIC_SUPABASE_ANON_KEY'' \<mapsto> []]
     = Inl (Error ''NEXT_PUBLIC_SUPABASE_ANON_KEY is not defined'') \<and>
   getSupabaseKeys [''NEXT_PUBLIC_SUPABASE_ANON_KEY'' \<mapsto> ''anon'']
     = Inl (Error ''NEXT_PUBLIC_SUPABASE_URL is not defined'')"
  using getSupabaseKeys_contract
      [of "[''NEXT_PUBLIC_SUPABASE_URL'' \<mapsto> ''https://x.supabase.co'',
            ''NEXT_PUBLIC_SUPABASE_ANON_KEY'' \<mapsto> ''anon'']"]
    getSupabaseKeys_contract
      [of "[''NEXT_PUBLIC_SUPABASE_URL'' \<mapsto> ''https://x.supabase.co'',
            ''NEXT_PUBLIC_SUPABASE_ANON_KEY'' \<mapsto> []]"]
    getSupabaseKeys_contract [of "[''NEXT_PUBLIC_SUPABASE_ANON_KEY'' \<mapsto> ''anon'']"]
  by simp

section \<open>The session middleware\<close>









section \<open>The pipeline driver\<close>

text \<open>The run of the script with the tool and the operator of \<open>happy\<close>.\<close>

lemmas script_defs =
  main_def checkStripeCLI_def getStripeSecretKey_def createStripeWebhookSecret_def
  checkSupabaseProject_def getSupabaseKeysApiUrl_def getSupabaseKeysAnonKey_def
  getSupabaseKeysServiceRoleKey_def writeEnvFile_def

lemma happy_run_returns: "main happy = Return () (world_of (main happy))"
  by (simp add: script_defs step_defs happy_def fresh_def happy_tool_def Let_def is_alnum_def
      toLowerCase_def toLowerChar_def newline_def)

lemma happy_run_file:
  "files (world_of (main happy)) ''.env'' = Some
     (''STRIPE_SECRET_KEY=sk_test_51'' @ [CHR 0x0A] @
      ''STRIPE_WEBHOOK_SECRET=whsec_AbC123'' @ [CHR 0x0A] @
      ''NEXT_PUBLIC_SUPABASE_URL=https://x.supabase.co'' @ [CHR 0x0A] @
      ''NEXT_PUBLIC_SUPABASE_ANON_KEY=anon'' @ [CHR 0x0A] @
      ''SUPABASE_SERVICE_ROLE_KEY=role'' @ [CHR 0x0A] @
      ''BASE_URL=http://localhost:3000'')"
  by (simp add: script_defs step_defs happy_def fresh_def happy_tool_def Let_def is_alnum_def
      toLowerCase_def toLowerChar_def newline_def)

lemma happy_run_writes: "length (writes (trace (world_of (main happy)))) = 1"
  by (simp add: script_defs step_defs happy_def fresh_def happy_tool_def Let_def is_alnum_def
      toLowerCase_def toLowerChar_def newline_def)

text \<open>No step before the assembly touches the files or calls \<^verbatim>\<open>fs.writeFile\<close>.\<close>

lemma checkStripeCLI_frame:
  "files (world_of (checkStripeCLI w)) = files w \<and>
   writes (trace (world_of (checkStripeCLI w))) = writes (trace w)"
  by (simp add: checkStripeCLI_def step_defs Let_def writes_append split: list.split exec_result.split)

lemma getStripeSecretKey_frame:
  "files (world_of (getStripeSecretKey w)) = files w \<and>
   writes (trace (world_of (getStripeSecretKey w))) = writes (trace w)"
  by (simp add: getStripeSecretKey_def step_defs Let_def writes_append split: list.split)

lemma createStripeWebhookSecret_frame:
  "files (world_of (createStripeWebhookSecret w)) = files w \<and>
   writes (trace (world_of (createStripeWebhookSecret w))) = writes (trace w)"
  by (simp add: createStripeWebhookSecret_def step_defs Let_def writes_append
      split: list.split exec_result.split option.split)

lemma checkSupabaseProject_frame:
  "files (world_of (checkSupabaseProject w)) = files w \<and>
   writes (trace (world_of (checkSupabaseProject w))) = writes (trace w)"
  by (simp add: checkSupabaseProject_def step_defs Let_def writes_append split: list.split)

lemma getSupabaseKeysApiUrl_frame:
  "files (world_of (getSupabaseKeysApiUrl w)) = files w \<and>
   writes (trace (world_of (getSupabaseKeysApiUrl w))) = writes (trace w)"
  by (simp add: getSupabaseKeysApiUrl_def step_defs Let_def writes_append split: list.split)

lemma getSupabaseKeysAnonKey_frame:
  "files (world_of (getSupabaseKeysAnonKey w)) = files w \<and>
   writes (trace (world_of (getSupabaseKeysAnonKey w))) = writes (trace w)"
  by (simp add: getSupabaseKeysAnonKey_def step_defs Let_def writes_append split: list.split)

lemma getSupabaseKeysServiceRoleKey_frame:
  "files (world_of (getSupabaseKeysServiceRoleKey w)) = files w \<and>
   writes (trace (world_of (getSupabaseKeysServiceRoleKey w))) = writes (trace w)"
  by (simp add: getSupabaseKeysServiceRoleKey_def step_defs Let_def writes_append split: list.split)

lemma await_changed:
  assumes "files (world_of (await m k w)) \<noteq> F \<or> writes (trace (world_of (await m k w))) \<noteq> W"
    and "files w = F \<and> writes (trace w) = W"
    and "\<And>w. files (world_of (m w)) = files w \<and> writes (trace (world_of (m w))) = writes (trace w)"
  obtains x w1 where "m w = Return x w1" and "files w1 = F \<and> writes (trace w1) = W"
    and "files (world_of (k x w1)) \<noteq> F \<or> writes (trace (world_of (k x w1))) \<noteq> W"
proof (cases "m w")
  case (Return x w1)
  moreover from assms(2) assms(3) [of w] Return have "files w1 = F \<and> writes (trace w1) = W" by simp
  moreover from assms(1) Return
  have "files (world_of (k x w1)) \<noteq> F \<or> writes (trace (world_of (k x w1))) \<noteq> W"
    by (simp add: await_def)
  ultimately show ?thesis by (rule that)
next
  case (Throw e w1)
  with assms(1) assms(2) assms(3) [of w] show ?thesis by (simp add: await_def)
next
  case (Exited n w1)
  with assms(1) assms(2) assms(3) [of w] show ?thesis by (simp add: await_def)
next
  case (Blocked w1)
  with assms(1) assms(2) assms(3) [of w] show ?thesis by (simp add: await_def)
qed

lemma Return_unit: "r = Return x w1 \<Longrightarrow> r = Return () w1"
  by simp

text \<open>
  C8. If a run of \<open>main\<close> has called \<^verbatim>\<open>fs.writeFile\<close> or changed a file, then every step
  before the assembly has returned: the tool verifier, the secret-key prompt, the webhook
  extractor, the project gate and the three key prompts, each started in the state the
  previous one left, and none of them has written. So a run in which one of these steps
  ends the process, throws or never returns performs no write.
\<close>

theorem write_only_after_all_steps:
  assumes "files (world_of (main w)) \<noteq> files w \<or>
           writes (trace (world_of (main w))) \<noteq> writes (trace w)"
  shows "\<exists>w1 k w2 s w3 w4 u w5 a w6 r w7.
     checkStripeCLI w = Return () w1 \<and>
     getStripeSecretKey w1 = Return k w2 \<and>
     createStripeWebhookSecret w2 = Return s w3 \<and>
     checkSupabaseProject w3 = Return () w4 \<and>
     getSupabaseKeysApiUrl w4 = Return u w5 \<and>
     getSupabaseKeysAnonKey w5 = Return a w6 \<and>
     getSupabaseKeysServiceRoleKey w6 = Return r w7 \<and>
     files w7 = files w \<and> writes (trace w7) = writes (trace w)"
  apply (insert assms)
  apply (unfold main_def andThen_def)
  apply (erule await_changed, simp, rule checkStripeCLI_frame)
  apply (erule await_changed, assumption, rule getStripeSecretKey_frame)
  apply (erule await_changed, assumption, rule createStripeWebhookSecret_frame)
  apply (erule await_changed, assumption, rule checkSupabaseProject_frame)
  apply (erule await_changed, assumption, rule getSupabaseKeysApiUrl_frame)
  apply (erule await_changed, assumption, rule getSupabaseKeysAnonKey_frame)
  apply (erule await_changed, assumption, rule getSupabaseKeysServiceRoleKey_frame)
  apply (elim conjE)
  apply (intro exI conjI)
          apply (erule Return_unit)
         apply assumption
        apply assumption
       apply (erule Return_unit)
      apply assumption+
  done

theorem write_only_after_all_steps_witness:
  "writes (trace (world_of (main happy))) \<noteq> writes (trace happy) \<and>
   (\<exists>w1 k w2 s w3 w4 u w5 a w6 r w7.
     checkStripeCLI happy = Return () w1 \<and>
     getStripeSecretKey w1 = Return k w2 \<and>
     createStripeWebhookSecret w2 = Return s w3 \<and>
     checkSupabaseProject w3 = Return () w4 \<and>
     getSupabaseKeysApiUrl w4 = Return u w5 \<and>
     getSupabaseKeysAnonKey w5 = Return a w6 \<and>
     getSupabaseKeysServiceRoleKey w6 = Return r w7 \<and>
     files w7 = files happy \<and> writes (trace w7) = writes (trace happy))"
proof -
  have "writes (trace happy) = []" by (simp add: happy_def fresh_def)
  moreover from happy_run_writes have "writes (trace (world_of (main happy))) \<noteq> []"
    by (cases "writes (trace (world_of (main happy)))") simp_all
  ultimately have "writes (trace (world_of (main happy))) \<noteq> writes (trace happy)"
    by simp
  then show ?thesis using write_only_after_all_steps [of happy] by blast
qed

section \<open>The configuration file\<close>

lemma lines_of_single: "CHR 0x0A \<notin> set l \<Longrightarrow> lines_of l = [l]"
  by (induction l) auto

lemma lines_of_line: "CHR 0x0A \<notin> set l \<Longrightarrow> lines_of (l @ CHR 0x0A # rest) = l # lines_of rest"
  by (induction l) auto

lemma await_ReturnE:
  assumes "await m k w = Return y w'"
  obtains x w1 where "m w = Return x w1" and "k x w1 = Return y w'"
  using assms by (cases "m w") (simp_all add: await_def)

lemma createStripeWebhookSecret_Return:
  assumes "createStripeWebhookSecret w = Return s w'"
  shows "\<exists>out. match_whsec out = Some s"
  using assms
  by (auto simp add: createStripeWebhookSecret_def step_defs Let_def
      split: list.splits exec_result.splits option.splits if_splits)

lemma token_no_newline:
  assumes "match_whsec out = Some s"
  shows "CHR 0x0A \<notin> set s"
proof -
  from match_whsec_Some [OF assms] obtain tok where
    "s = ''whsec_'' @ tok" "\<forall>c\<in>set tok. is_alnum c" by blast
  moreover have "\<not> is_alnum (CHR 0x0A)" by (simp add: is_alnum_def)
  ultimately show ?thesis by auto
qed

lemma writeEnvFile_Return:
  assumes "writeEnvFile envVars w = Return x w'"
  shows "files w' = (files w)(''.env'' \<mapsto> join newline (map (\<lambda>(key, value). key @ ''='' @ value) envVars)) \<and>
     writes (trace w') = writes (trace w) @
       [(''.env'', join newline (map (\<lambda>(key, value). key @ ''='' @ value) envVars))]"
  using assms
  by (auto simp add: writeEnvFile_def step_defs Let_def writes_append split: if_splits)

lemma console_log_Return:
  "console_log msg w = Return x w' \<Longrightarrow> files w' = files w \<and> writes (trace w') = writes (trace w)"
  by (auto simp: console_log_def emit_def writes_append)

lemma main_Return_chain:
  assumes "main w = Return () w'"
  shows "\<exists>w1 k w2 s w3 w4 u w5 a w6 r w7 w8.
     checkStripeCLI w = Return () w1 \<and>
     getStripeSecretKey w1 = Return k w2 \<and>
     createStripeWebhookSecret w2 = Return s w3 \<and>
     checkSupabaseProject w3 = Return () w4 \<and>
     getSupabaseKeysApiUrl w4 = Return u w5 \<and>
     getSupabaseKeysAnonKey w5 = Return a w6 \<and>
     getSupabaseKeysServiceRoleKey w6 = Return r w7 \<and>
     writeEnvFile
       [(''STRIPE_SECRET_KEY'', k), (''STRIPE_WEBHOOK_SECRET'', s),
        (''NEXT_PUBLIC_SUPABASE_URL'', u), (''NEXT_PUBLIC_SUPABASE_ANON_KEY'', a),
        (''SUPABASE_SERVICE_ROLE_KEY'', r), (''BASE_URL'', ''http://localhost:3000'')] w7 =
       Return () w8 \<and>
     console_log ([CHR 0xF0, CHR 0x9F, CHR 0x8E, CHR 0x89] @ '' Setup completed successfully!'') w8 =
       Return () w'"
  apply (insert assms)
  apply (unfold main_def andThen_def Let_def)
  apply (erule await_ReturnE)+
  apply (intro exI conjI)
          apply (erule Return_unit)
         apply assumption
        apply assumption
       apply (erule Return_unit)
      apply assumption
     apply assumption
    apply assumption
   apply (erule Return_unit)
  apply assumption
  done

text \<open>
  C2. In every run in which \<open>main\<close> returns, all seven steps before the assembly have
  returned, with the secret key \<open>k\<close>, the webhook secret \<open>s\<close>, the API URL \<open>u\<close>, the
  anonymous key \<open>a\<close> and the role key \<open>r\<close>, and the file \<^verbatim>\<open>.env\<close> holds, in this order,
  \<open>STRIPE_SECRET_KEY=k\<close>, \<open>STRIPE_WEBHOOK_SECRET=s\<close>, \<open>NEXT_PUBLIC_SUPABASE_URL=u\<close>,
  \<open>NEXT_PUBLIC_SUPABASE_ANON_KEY=a\<close>, \<open>SUPABASE_SERVICE_ROLE_KEY=r\<close> and
  \<open>BASE_URL=http://localhost:3000\<close>, joined by single newlines, with nothing after the
  last entry. The file is written once and the process ends with status 0. When the four
  typed values are single lines, the file has exactly these six lines: each key once, no
  blank line, no trailing newline.
\<close>

theorem env_file_layout:
  assumes "main w = Return () w'"
  shows "\<exists>w1 k w2 s w3 w4 u w5 a w6 r w7 content.
     checkStripeCLI w = Return () w1 \<and>
     getStripeSecretKey w1 = Return k w2 \<and>
     createStripeWebhookSecret w2 = Return s w3 \<and>
     checkSupabaseProject w3 = Return () w4 \<and>
     getSupabaseKeysApiUrl w4 = Return u w5 \<and>
     getSupabaseKeysAnonKey w5 = Return a w6 \<and>
     getSupabaseKeysServiceRoleKey w6 = Return r w7 \<and>
     content =
       ''STRIPE_SECRET_KEY='' @ k @ [CHR 0x0A] @
       ''STRIPE_WEBHOOK_SECRET='' @ s @ [CHR 0x0A] @
       ''NEXT_PUBLIC_SUPABASE_URL='' @ u @ [CHR 0x0A] @
       ''NEXT_PUBLIC_SUPABASE_ANON_KEY='' @ a @ [CHR 0x0A] @
       ''SUPABASE_SERVICE_ROLE_KEY='' @ r @ [CHR 0x0A] @
       ''BASE_URL=http://localhost:3000'' \<and>
     files w' ''.env'' = Some content \<and>
     writes (trace w') = writes (trace w) @ [(''.env'', content)] \<and>
     script w = Terminated 0 w' \<and>
     (CHR 0x0A \<notin> set k \<union> set u \<union> set a \<union> set r \<longrightarrow>
        lines_of content =
          [''STRIPE_SECRET_KEY='' @ k,
           ''STRIPE_WEBHOOK_SECRET='' @ s,
           ''NEXT_PUBLIC_SUPABASE_URL='' @ u,
           ''NEXT_PUBLIC_SUPABASE_ANON_KEY='' @ a,
           ''SUPABASE_SERVICE_ROLE_KEY='' @ r,
           ''BASE_URL=http://localhost:3000''])"
proof -
  from main_Return_chain [OF assms] obtain w1 k w2 s w3 w4 u w5 a w6 r w7 w8 where
    c: "checkStripeCLI w = Return () w1"
       "getStripeSecretKey w1 = Return k w2"
       "createStripeWebhookSecret w2 = Return s w3"
       "checkSupabaseProject w3 = Return () w4"
       "getSupabaseKeysApiUrl w4 = Return u w5"
       "getSupabaseKeysAnonKey w5 = Return a w6"
       "getSupabaseKeysServiceRoleKey w6 = Return r w7"
    and wr: "writeEnvFile
       [(''STRIPE_SECRET_KEY'', k), (''STRIPE_WEBHOOK_SECRET'', s),
        (''NEXT_PUBLIC_SUPABASE_URL'', u), (''NEXT_PUBLIC_SUPABASE_ANON_KEY'', a),
        (''SUPABASE_SERVICE_ROLE_KEY'', r), (''BASE_URL'', ''http://localhost:3000'')] w7 =
       Return () w8"
    and fin: "console_log ([CHR 0xF0, CHR 0x9F, CHR 0x8E, CHR 0x89] @ '' Setup completed successfully!'') w8 =
       Return () w'"
    by blast
  define content where "content =
       ''STRIPE_SECRET_KEY='' @ k @ [CHR 0x0A] @
       ''STRIPE_WEBHOOK_SECRET='' @ s @ [CHR 0x0A] @
       ''NEXT_PUBLIC_SUPABASE_URL='' @ u @ [CHR 0x0A] @
       ''NEXT_PUBLIC_SUPABASE_ANON_KEY='' @ a @ [CHR 0x0A] @
       ''SUPABASE_SERVICE_ROLE_KEY='' @ r @ [CHR 0x0A] @
       ''BASE_URL=http://localhost:3000''"
  have rendered: "join newline (map (\<lambda>(key, value). key @ ''='' @ value)
       [(''STRIPE_SECRET_KEY'', k), (''STRIPE_WEBHOOK_SECRET'', s),
        (''NEXT_PUBLIC_SUPABASE_URL'', u), (''NEXT_PUBLIC_SUPABASE_ANON_KEY'', a),
        (''SUPABASE_SERVICE_ROLE_KEY'', r), (''BASE_URL'', ''http://localhost:3000'')]) = content"
    by (simp add: content_def newline_def)
  have keep: "files w7 = files w \<and> writes (trace w7) = writes (trace w)"
    using c checkStripeCLI_frame [of w] getStripeSecretKey_frame [of w1]
      createStripeWebhookSecret_frame [of w2] checkSupabaseProject_frame [of w3]
      getSupabaseKeysApiUrl_frame [of w4] getSupabaseKeysAnonKey_frame [of w5]
      getSupabaseKeysServiceRoleKey_frame [of w6]
    by simp
  from writeEnvFile_Return [OF wr] rendered
  have w8: "files w8 = (files w7)(''.env'' \<mapsto> content)"
    "writes (trace w8) = writes (trace w7) @ [(''.env'', content)]"
    by simp_all
  from console_log_Return [OF fin] w8 keep
  have out: "files w' ''.env'' = Some content"
    "writes (trace w') = writes (trace w) @ [(''.env'', content)]"
    by simp_all
  from createStripeWebhookSecret_Return [OF c(3)] obtain out where "match_whsec out = Some s"
    by blast
  then have s: "CHR 0x0A \<notin> set s" by (rule token_no_newline)
  have layout: "CHR 0x0A \<notin> set k \<union> set u \<union> set a \<union> set r \<longrightarrow>
        lines_of content =
          [''STRIPE_SECRET_KEY='' @ k,
           ''STRIPE_WEBHOOK_SECRET='' @ s,
           ''NEXT_PUBLIC_SUPABASE_URL='' @ u,
           ''NEXT_PUBLIC_SUPABASE_ANON_KEY='' @ a,
           ''SUPABASE_SERVICE_ROLE_KEY='' @ r,
           ''BASE_URL=http://localhost:3000'']"
  proof
    assume "CHR 0x0A \<notin> set k \<union> set u \<union> set a \<union> set r"
    then have nl: "CHR 0x0A \<notin> set (''STRIPE_SECRET_KEY='' @ k)"
      "CHR 0x0A \<notin> set (''STRIPE_WEBHOOK_SECRET='' @ s)"
      "CHR 0x0A \<notin> set (''NEXT_PUBLIC_SUPABASE_URL='' @ u)"
      "CHR 0x0A \<notin> set (''NEXT_PUBLIC_SUPABASE_ANON_KEY='' @ a)"
      "CHR 0x0A \<notin> set (''SUPABASE_SERVICE_ROLE_KEY='' @ r)"
      "CHR 0x0A \<notin> set ''BASE_URL=http://localhost:3000''"
      using s by simp_all
    have "content =
       (''STRIPE_SECRET_KEY='' @ k) @ CHR 0x0A #
       (''STRIPE_WEBHOOK_SECRET='' @ s) @ CHR 0x0A #
       (''NEXT_PUBLIC_SUPABASE_URL='' @ u) @ CHR 0x0A #
       (''NEXT_PUBLIC_SUPABASE_ANON_KEY='' @ a) @ CHR 0x0A #
       (''SUPABASE_SERVICE_ROLE_KEY='' @ r) @ CHR 0x0A #
       ''BASE_URL=http://localhost:3000''"
      by (simp add: content_def)
    then show "lines_of content =
          [''STRIPE_SECRET_KEY='' @ k,
           ''STRIPE_WEBHOOK_SECRET='' @ s,
           ''NEXT_PUBLIC_SUPABASE_URL='' @ u,
           ''NEXT_PUBLIC_SUPABASE_ANON_KEY='' @ a,
           ''SUPABASE_SERVICE_ROLE_KEY='' @ r,
           ''BASE_URL=http://localhost:3000'']"
      by (simp only: lines_of_line [OF nl(1)] lines_of_line [OF nl(2)] lines_of_line [OF nl(3)]
          lines_of_line [OF nl(4)] lines_of_line [OF nl(5)] lines_of_single [OF nl(6)])
  qed
  have status: "script w = Terminated 0 w'" using assms by (simp add: script_def)
  from c content_def out status layout show ?thesis by blast
qed

theorem env_file_layout_witness:
  "\<exists>w'. main happy = Return () w' \<and>
      files w' ''.env'' = Some
       (''STRIPE_SECRET_KEY=sk_test_51'' @ [CHR 0x0A] @
        ''STRIPE_WEBHOOK_SECRET=whsec_AbC123'' @ [CHR 0x0A] @
        ''NEXT_PUBLIC_SUPABASE_URL=https://x.supabase.co'' @ [CHR 0x0A] @
        ''NEXT_PUBLIC_SUPABASE_ANON_KEY=anon'' @ [CHR 0x0A] @
        ''SUPABASE_SERVICE_ROLE_KEY=role'' @ [CHR 0x0A] @
        ''BASE_URL=http://localhost:3000'') \<and>
      length (writes (trace w')) = 1 \<and> script happy = Terminated 0 w'"
proof -
  from env_file_layout [OF happy_run_returns] obtain content where
    "writes (trace (world_of (main happy))) = writes (trace happy) @ [(''.env'', content)]"
    and "script happy = Terminated 0 (world_of (main happy))"
    by blast
  then have "length (writes (trace (world_of (main happy)))) = 1 \<and>
      script happy = Terminated 0 (world_of (main happy))"
    by (simp add: happy_def fresh_def)
  with happy_run_returns happy_run_file show ?thesis by blast
qed

section \<open>The exit status\<close>

text \<open>
  Every \<^verbatim>\<open>process.exit\<close> of the script passes 1. A step that throws instead makes \<open>main\<close>
  reject; the handler of the last line prints the error, and the process ends with
  status 0.
\<close>

lemma script_after_exit: "main w = Exited n w' \<Longrightarrow> script w = Terminated n w'"
  by (simp add: script_def)

lemma script_after_throw:
  "main w = Throw e w' \<Longrightarrow> script w = Terminated 0 (emit (Err (error_text e)) w')"
  by (simp add: script_def)

lemma extraction_failure_exits_zero:
  assumes "checkStripeCLI w = Return () w1"
    and "getStripeSecretKey w1 = Return k w2"
    and "createStripeWebhookSecret w2 = Throw e w3"
  shows "script w = Terminated 0 (emit (Err (error_text e)) w3)"
  by (rule script_after_throw) (simp add: main_def await_def andThen_def assms)

text \<open>
  C1. The exit status after a failed extraction. The tool is installed and authenticated
  and the operator types a secret key. When the output of the \<^verbatim>\<open>listen\<close> command holds no
  token, and likewise when the command itself fails, the extractor throws, nothing is
  written, the last thing printed is the error, and the process ends with status 0.
\<close>

theorem extraction_failure_exit_status:
  "(\<exists>w'. script (happy\<lparr>shell := happy_tool(''stripe listen --print-secret'' := [ExecOk ''Ready!''])\<rparr>)
            = Terminated 0 w' \<and>
         last (trace w') = Err ''Error: Failed to extract Stripe webhook secret'' \<and>
         writes (trace w') = [] \<and> files w' = Map.empty) \<and>
   (\<exists>w'. script (happy\<lparr>shell := happy_tool(''stripe listen --print-secret'' := [ExecFail])\<rparr>)
            = Terminated 0 w' \<and>
         last (trace w') = Err ''Error: Command failed: stripe listen --print-secret'' \<and>
         writes (trace w') = [] \<and> files w' = Map.empty)"
  by (simp add: script_def script_defs step_defs happy_def fresh_def happy_tool_def Let_def
      is_alnum_def toLowerCase_def toLowerChar_def newline_def)

end
